theory Spec2Isabelle
  imports Complex_Main "HOL-Library.Word" "HOL-Library.Log_Nat"
begin

section \<open>Hydroponic dosing controller: state manager and pump engine\<close>

text \<open>
  A shallow embedding of \<^verbatim>\<open>state_machine.h\<close>, \<^verbatim>\<open>state_machine.cpp\<close>, \<^verbatim>\<open>pump.h\<close> and
  \<^verbatim>\<open>pump.cpp\<close>.

  Conventions of the embedding:
  \<^item> \<^verbatim>\<open>uint32_t\<close> and \<^verbatim>\<open>uint8_t\<close> are \<open>32 word\<close> and \<open>8 word\<close>; subtraction of
    timestamps wraps around as in C.
  \<^item> A \<^verbatim>\<open>float\<close> is a \<open>real\<close>, and every arithmetic operation on floats is the exact
    operation followed by \<open>f32\<close>, the rounding to IEEE 754 binary32 (to nearest, ties to
    even, with gradual underflow). A float literal that binary32 cannot hold, such as
    \<^verbatim>\<open>5.2f\<close>, is \<open>f32\<close> of its decimal value. Comparisons, \<^verbatim>\<open>constrain\<close> and \<^verbatim>\<open>abs\<close>
    are exact in binary32 and carry no rounding. The operations are not fused, and NaN
    and overflow to infinity are not represented: a result beyond the binary32 range is
    rounded as if the exponent had no upper limit. Every divisor in the source is a
    non-zero constant, and for measurements that \<^verbatim>\<open>pump_ph_dose\<close> accepts the values
    stay far inside the binary32 range.
  \<^item> The global objects \<^verbatim>\<open>state_manager\<close>, \<^verbatim>\<open>pumps\<close> and \<^verbatim>\<open>pump_system\<close> are fields of
    explicit state records that every function receives and returns.
  \<^item> A C array of four elements is a function from the index; the source guards every
    access by \<^verbatim>\<open>pump_index >= 4\<close>, so only the indices 0 to 3 are ever read or written.
  \<^item> \<^verbatim>\<open>millis()\<close> is the parameter \<open>now\<close>: all clock reads of one call see the same tick.
  \<^item> \<^verbatim>\<open>ledcWrite(pin, duty)\<close> updates the field \<open>ledc\<close>, the duty last written per pin.
  \<^item> \<^verbatim>\<open>Serial.printf\<close> and \<^verbatim>\<open>log_transition\<close> only print and are left out.
  \<^item> The enumerators of the C++ scoped enums carry a prefix, since \<^verbatim>\<open>DOSING\<close>,
    \<^verbatim>\<open>ERROR\<close>, \<^verbatim>\<open>IDLE\<close> and \<^verbatim>\<open>MAINTENANCE\<close> occur in several of them.
\<close>

type_synonym u8 = "8 word"
type_synonym u32 = "32 word"

subsection \<open>Binary32 arithmetic\<close>

text \<open>
  Rounding of a real to the nearest integer, ties to the even one; the exponent of the
  binade of a non-negative real, \<open>2 powi e \<le> x < 2 powi (e + 1)\<close>, not below the exponent
  \<open>- 126\<close> of the smallest normal numbers, whose spacing the subnormal numbers share; and
  the rounding to binary32, which keeps 24 significant bits.
\<close>

definition round_half_even :: "real \<Rightarrow> int" where
  "round_half_even y =
     (let f = \<lfloor>y\<rfloor>; d = y - of_int f
      in if d < 1 / 2 then f else if 1 / 2 < d then f + 1 else if even f then f else f + 1)"

definition binade :: "real \<Rightarrow> int" where
  "binade x =
     (if 1 \<le> x then bitlen \<lfloor>x\<rfloor> - 1
      else if 0 < x then max (- 126) (- bitlen (\<lceil>1 / x\<rceil> - 1))
      else - 126)"

definition f32_abs :: "real \<Rightarrow> real" where
  "f32_abs x =
     of_int (round_half_even (x / 2 powi (binade x - 23))) * 2 powi (binade x - 23)"

definition f32 :: "real \<Rightarrow> real" where
  "f32 x = (if x < 0 then - f32_abs (- x) else f32_abs x)"

text \<open>The four operations of C on two floats.\<close>

definition fadd :: "real \<Rightarrow> real \<Rightarrow> real" where
  "fadd a b = f32 (a + b)"

definition fsub :: "real \<Rightarrow> real \<Rightarrow> real" where
  "fsub a b = f32 (a - b)"

definition fmul :: "real \<Rightarrow> real \<Rightarrow> real" where
  "fmul a b = f32 (a * b)"

definition fdiv :: "real \<Rightarrow> real \<Rightarrow> real" where
  "fdiv a b = f32 (a / b)"

subsection \<open>Enumerations (state_machine.h, pump.h)\<close>

datatype SystemState =
    SYS_STARTUP | SYS_INITIALIZING | SYS_MONITORING | SYS_DOSING
  | SYS_CALIBRATING | SYS_ERROR | SYS_MAINTENANCE | SYS_SHUTDOWN

datatype PumpState =
    PUMP_IDLE | PUMP_PRIMING | PUMP_DOSING | PUMP_COOLING_DOWN | PUMP_ERROR | PUMP_MAINTENANCE

datatype SensorState =
    SENSOR_INITIALIZING | SENSOR_WARMING_UP | SENSOR_READING
  | SENSOR_FILTERING | SENSOR_READY | SENSOR_ERROR

datatype CalibrationState = CAL_IDLE | CAL_ACTIVE

datatype PumpId = PH_UP | PH_DOWN | NUTRIENT_A | NUTRIENT_B | COUNT

text \<open>\<^verbatim>\<open>static_cast<int>(pump_id)\<close> and \<^verbatim>\<open>static_cast<PumpId>(i)\<close>.\<close>

fun pump_index :: "PumpId \<Rightarrow> nat" where
  "pump_index PH_UP = 0"
| "pump_index PH_DOWN = 1"
| "pump_index NUTRIENT_A = 2"
| "pump_index NUTRIENT_B = 3"
| "pump_index COUNT = 4"

definition PumpId_of :: "nat \<Rightarrow> PumpId" where
  "PumpId_of i =
     (if i = 0 then PH_UP else if i = 1 then PH_DOWN else if i = 2 then NUTRIENT_A
      else if i = 3 then NUTRIENT_B else COUNT)"

subsection \<open>The state manager (state_machine.h)\<close>

record state_manager_t =
  system_state :: SystemState
  pump_states :: "nat \<Rightarrow> PumpState"
  sensor_state :: SensorState
  calibration_state :: CalibrationState
  system_state_entry_time :: u32
  pump_state_entry_times :: "nat \<Rightarrow> u32"
  sensor_state_entry_time :: u32
  calibration_state_entry_time :: u32
  debug_logging_enabled :: bool

text \<open>The default constructor \<^verbatim>\<open>state_manager_t()\<close>.\<close>

definition state_manager_init :: "u32 \<Rightarrow> state_manager_t" where
  "state_manager_init now =
     \<lparr> system_state = SYS_STARTUP,
       pump_states = (\<lambda>i. PUMP_IDLE),
       sensor_state = SENSOR_INITIALIZING,
       calibration_state = CAL_IDLE,
       system_state_entry_time = now,
       pump_state_entry_times = (\<lambda>i. now),
       sensor_state_entry_time = now,
       calibration_state_entry_time = now,
       debug_logging_enabled = False \<rparr>"

text \<open>\<^verbatim>\<open>state_machine_init\<close> (state_machine.cpp).\<close>

definition state_machine_init_one :: "u32 \<Rightarrow> nat \<Rightarrow> state_manager_t \<Rightarrow> state_manager_t" where
  "state_machine_init_one now i sm =
     sm\<lparr> pump_state_entry_times := (pump_state_entry_times sm)(i := now) \<rparr>"

definition state_machine_init :: "u32 \<Rightarrow> state_manager_t \<Rightarrow> bool \<times> state_manager_t" where
  "state_machine_init now sm =
     (let sm1 = sm\<lparr> system_state_entry_time := now, sensor_state_entry_time := now,
                      calibration_state_entry_time := now \<rparr>;
          sm2 = fold (state_machine_init_one now) [0..<4] sm1
      in (True, sm2\<lparr> debug_logging_enabled := True \<rparr>))"

subsection \<open>Legality tables (state_machine.cpp)\<close>

fun is_valid_system_transition :: "SystemState \<Rightarrow> SystemState \<Rightarrow> bool" where
  "is_valid_system_transition from to =
     (if to = SYS_ERROR \<or> to = SYS_MAINTENANCE \<or> to = SYS_SHUTDOWN then True
      else case from of
          SYS_STARTUP \<Rightarrow> to = SYS_INITIALIZING
        | SYS_INITIALIZING \<Rightarrow> to = SYS_MONITORING
        | SYS_MONITORING \<Rightarrow> to = SYS_DOSING \<or> to = SYS_CALIBRATING
        | SYS_DOSING \<Rightarrow> to = SYS_MONITORING
        | SYS_CALIBRATING \<Rightarrow> to = SYS_MONITORING
        | SYS_ERROR \<Rightarrow> to = SYS_MONITORING \<or> to = SYS_INITIALIZING
        | SYS_MAINTENANCE \<Rightarrow> to = SYS_MONITORING
        | SYS_SHUTDOWN \<Rightarrow> to = SYS_STARTUP)"

fun is_valid_pump_transition :: "PumpState \<Rightarrow> PumpState \<Rightarrow> bool" where
  "is_valid_pump_transition from to =
     (if to = PUMP_IDLE \<or> to = PUMP_ERROR \<or> to = PUMP_MAINTENANCE then True
      else case from of
          PUMP_IDLE \<Rightarrow> to = PUMP_PRIMING
        | PUMP_PRIMING \<Rightarrow> to = PUMP_DOSING
        | PUMP_DOSING \<Rightarrow> to = PUMP_COOLING_DOWN
        | PUMP_COOLING_DOWN \<Rightarrow> to = PUMP_IDLE
        | PUMP_ERROR \<Rightarrow> to = PUMP_IDLE
        | PUMP_MAINTENANCE \<Rightarrow> to = PUMP_IDLE)"

fun is_valid_sensor_transition :: "SensorState \<Rightarrow> SensorState \<Rightarrow> bool" where
  "is_valid_sensor_transition from to =
     (if to = SENSOR_ERROR then True
      else case from of
          SENSOR_INITIALIZING \<Rightarrow> to = SENSOR_READY
        | SENSOR_WARMING_UP \<Rightarrow> to = SENSOR_READING
        | SENSOR_READING \<Rightarrow> to = SENSOR_FILTERING
        | SENSOR_FILTERING \<Rightarrow> to = SENSOR_READY
        | SENSOR_READY \<Rightarrow> to = SENSOR_WARMING_UP
        | SENSOR_ERROR \<Rightarrow> to = SENSOR_INITIALIZING \<or> to = SENSOR_READY)"

subsection \<open>Transition functions (state_machine.cpp)\<close>

definition system_transition_to ::
  "u32 \<Rightarrow> SystemState \<Rightarrow> state_manager_t \<Rightarrow> bool \<times> state_manager_t" where
  "system_transition_to now new_state sm =
     (let old_state = system_state sm in
      if \<not> is_valid_system_transition old_state new_state then (False, sm)
      else (True, sm\<lparr> system_state := new_state, system_state_entry_time := now \<rparr>))"

definition pump_transition_to ::
  "u32 \<Rightarrow> PumpId \<Rightarrow> PumpState \<Rightarrow> state_manager_t \<Rightarrow> bool \<times> state_manager_t" where
  "pump_transition_to now pump_id new_state sm =
     (let idx = pump_index pump_id in
      if idx \<ge> 4 then (False, sm)
      else let old_state = pump_states sm idx in
        if \<not> is_valid_pump_transition old_state new_state then (False, sm)
        else (True, sm\<lparr> pump_states := (pump_states sm)(idx := new_state),
                         pump_state_entry_times := (pump_state_entry_times sm)(idx := now) \<rparr>))"

definition sensor_transition_to ::
  "u32 \<Rightarrow> SensorState \<Rightarrow> state_manager_t \<Rightarrow> bool \<times> state_manager_t" where
  "sensor_transition_to now new_state sm =
     (let old_state = sensor_state sm in
      if \<not> is_valid_sensor_transition old_state new_state then (False, sm)
      else (True, sm\<lparr> sensor_state := new_state, sensor_state_entry_time := now \<rparr>))"

definition pump_get_state_duration_ms :: "u32 \<Rightarrow> PumpId \<Rightarrow> state_manager_t \<Rightarrow> u32" where
  "pump_get_state_duration_ms now pump_id sm =
     (let idx = pump_index pump_id in
      if idx \<ge> 4 then 0 else now - pump_state_entry_times sm idx)"

text \<open>
  \<^verbatim>\<open>state_machine_emergency_stop\<close>: plain assignments, no call of a transition function.
  The loop \<^verbatim>\<open>for (int i = 0; i < 4; i++)\<close> is a fold over the indices 0 to 3.
\<close>

definition emergency_stop_pump :: "u32 \<Rightarrow> nat \<Rightarrow> state_manager_t \<Rightarrow> state_manager_t" where
  "emergency_stop_pump now i sm =
     sm\<lparr> pump_states := (pump_states sm)(i := PUMP_IDLE),
         pump_state_entry_times := (pump_state_entry_times sm)(i := now) \<rparr>"

definition state_machine_emergency_stop :: "u32 \<Rightarrow> state_manager_t \<Rightarrow> state_manager_t" where
  "state_machine_emergency_stop now sm =
     (let sm1 = sm\<lparr> system_state := SYS_ERROR, system_state_entry_time := now \<rparr>;
          sm2 = fold (emergency_stop_pump now) [0..<4] sm1
      in sm2\<lparr> sensor_state := SENSOR_READY, sensor_state_entry_time := now \<rparr>)"

subsection \<open>Pump configuration and data structures (pump.h)\<close>

abbreviation (input) PUMP_MIN_FLOW_RATE :: real where "PUMP_MIN_FLOW_RATE \<equiv> 10"
abbreviation (input) PUMP_MAX_FLOW_RATE :: real where "PUMP_MAX_FLOW_RATE \<equiv> 90"
abbreviation (input) PUMP_DEFAULT_FLOW_RATE :: real where "PUMP_DEFAULT_FLOW_RATE \<equiv> 30"
abbreviation (input) PUMP_MAX_DOSES_PER_HOUR :: int where "PUMP_MAX_DOSES_PER_HOUR \<equiv> 3"
abbreviation (input) PUMP_MIN_DOSE_INTERVAL :: u32 where "PUMP_MIN_DOSE_INTERVAL \<equiv> 300000"
abbreviation (input) PUMP_MIN_DOSE_VOLUME :: real where "PUMP_MIN_DOSE_VOLUME \<equiv> 5"
abbreviation (input) PUMP_MAX_DOSE_VOLUME :: real where "PUMP_MAX_DOSE_VOLUME \<equiv> 25"
abbreviation (input) PUMP_TIMEOUT_MS :: u32 where "PUMP_TIMEOUT_MS \<equiv> 600000"
abbreviation (input) DEFAULT_PH_KP :: real where "DEFAULT_PH_KP \<equiv> 8"
abbreviation (input) DEFAULT_PH_KI :: real where "DEFAULT_PH_KI \<equiv> 0.5"
abbreviation (input) DEFAULT_PH_KD :: real where "DEFAULT_PH_KD \<equiv> 2"
abbreviation (input) DEFAULT_PH_TARGET :: real where "DEFAULT_PH_TARGET \<equiv> 6"
abbreviation (input) PID_INTEGRAL_MAX :: real where "PID_INTEGRAL_MAX \<equiv> 50"
abbreviation (input) PID_INTEGRAL_MIN :: real where "PID_INTEGRAL_MIN \<equiv> - 50"
abbreviation (input) kHourMs :: u32 where "kHourMs \<equiv> 60 * 60 * 1000"

record pid_controller_t =
  kp :: real
  ki :: real
  kd :: real
  target_value :: real
  integral :: real
  last_error :: real
  last_dose_time :: u32
  doses_this_hour :: u8
  hour_start :: u32
  total_ml_dosed :: real

record pump_t =
  gpio_pin :: u8
  pwm_channel :: u8
  controller :: pid_controller_t
  running :: bool
  start_time :: u32
  run_duration_ms :: u32
  target_pwm_duty :: u8

record pump_system_t =
  auto_ph_control :: bool
  auto_ec_control :: bool
  initialized :: bool

text \<open>The globals of the two translation units, and the duty last written to each pin.\<close>

record world =
  pumps :: "nat \<Rightarrow> pump_t"
  pump_system :: pump_system_t
  state_manager :: state_manager_t
  ledc :: "u8 \<Rightarrow> u32"

text \<open>The default constructors \<^verbatim>\<open>pid_controller_t()\<close> and \<^verbatim>\<open>pump_t()\<close>.\<close>

definition pid_controller_init :: "u32 \<Rightarrow> pid_controller_t" where
  "pid_controller_init now =
     \<lparr> kp = DEFAULT_PH_KP, ki = DEFAULT_PH_KI, kd = DEFAULT_PH_KD,
       target_value = DEFAULT_PH_TARGET, integral = 0, last_error = 0,
       last_dose_time = 0, doses_this_hour = 0, hour_start = now, total_ml_dosed = 0 \<rparr>"

definition pump_init_t :: "u32 \<Rightarrow> pump_t" where
  "pump_init_t now =
     \<lparr> gpio_pin = 0, pwm_channel = 0, controller = pid_controller_init now, running = False,
       start_time = 0, run_duration_ms = 0, target_pwm_duty = 0 \<rparr>"

subsection \<open>Helpers of the embedding\<close>

text \<open>
  The Arduino macro \<^verbatim>\<open>constrain(amt, low, high)\<close>, the conversion of a float to an
  unsigned integer (truncation towards zero), and the assignments
  \<^verbatim>\<open>pumps[i].field = v\<close>, \<^verbatim>\<open>pumps[i].controller.field = v\<close> and \<^verbatim>\<open>ledcWrite(pin, duty)\<close>.
\<close>

definition constrain :: "real \<Rightarrow> real \<Rightarrow> real \<Rightarrow> real" where
  "constrain amt low high = (if amt < low then low else if amt > high then high else amt)"

definition truncate :: "real \<Rightarrow> int" where
  "truncate x = (if x < 0 then \<lceil>x\<rceil> else \<lfloor>x\<rfloor>)"

definition float_to_u8 :: "real \<Rightarrow> u8" where
  "float_to_u8 x = word_of_int (truncate x)"

definition float_to_u32 :: "real \<Rightarrow> u32" where
  "float_to_u32 x = word_of_int (truncate x)"

definition map_pump :: "nat \<Rightarrow> (pump_t \<Rightarrow> pump_t) \<Rightarrow> world \<Rightarrow> world" where
  "map_pump i f w = w\<lparr> pumps := (pumps w)(i := f (pumps w i)) \<rparr>"

definition map_controller :: "nat \<Rightarrow> (pid_controller_t \<Rightarrow> pid_controller_t) \<Rightarrow> world \<Rightarrow> world" where
  "map_controller i f w = map_pump i (\<lambda>p. p\<lparr> controller := f (controller p) \<rparr>) w"

definition ledcWrite :: "u8 \<Rightarrow> u32 \<Rightarrow> world \<Rightarrow> world" where
  "ledcWrite pin duty w = w\<lparr> ledc := (ledc w)(pin := duty) \<rparr>"

subsection \<open>Private helper functions (pump.cpp)\<close>

definition calculate_pwm_duty :: "real \<Rightarrow> u8" where
  "calculate_pwm_duty flow_rate_ml_per_min =
     (let flow_rate = constrain flow_rate_ml_per_min (f32 5.2) PUMP_MAX_FLOW_RATE;
          duty_percent = fadd 10 (fdiv (fmul (fsub flow_rate (f32 5.2)) 90) (f32 84.8))
      in float_to_u8 (fdiv (fmul duty_percent 255) 100))"

text \<open>
  \<^verbatim>\<open>can_dose_safely(pump_id, pump)\<close>: every caller passes \<^verbatim>\<open>&pumps[pump_id]\<close> as the
  second argument, so the model takes the identifier only.
\<close>

definition can_dose_safely :: "u32 \<Rightarrow> PumpId \<Rightarrow> world \<Rightarrow> bool \<times> world" where
  "can_dose_safely now pump_id w =
     (let idx = pump_index pump_id;
          current_state = pump_states (state_manager w) idx
      in if current_state \<noteq> PUMP_IDLE then (False, w)
         else if now - last_dose_time (controller (pumps w idx)) < PUMP_MIN_DOSE_INTERVAL
           then (False, w)
         else
           let w1 = (if now - hour_start (controller (pumps w idx)) \<ge> kHourMs
                     then map_controller idx
                            (\<lambda>c. c\<lparr> doses_this_hour := 0, hour_start := now \<rparr>) w
                     else w)
           in if uint (doses_this_hour (controller (pumps w1 idx))) \<ge> PUMP_MAX_DOSES_PER_HOUR
                then (False, w1)
              else if system_state (state_manager w1) \<noteq> SYS_MONITORING
                      \<and> system_state (state_manager w1) \<noteq> SYS_DOSING
                then (False, w1)
              else (True, w1))"

text \<open>
  \<^verbatim>\<open>calculate_pid_dose\<close> updates the controller through its pointer; the model returns the
  dose together with the updated controller. \<^verbatim>\<open>abs\<close> is applied to a \<^verbatim>\<open>float\<close>.
\<close>

definition calculate_pid_dose ::
  "pid_controller_t \<Rightarrow> real \<Rightarrow> real \<Rightarrow> real \<times> pid_controller_t" where
  "calculate_pid_dose pid current_value volume_liters =
     (let error = fsub (target_value pid) current_value;
          pid1 = pid\<lparr> integral := fadd (integral pid) error \<rparr>;
          pid2 = pid1\<lparr> integral := constrain (integral pid1) PID_INTEGRAL_MIN PID_INTEGRAL_MAX \<rparr>;
          derivative = fsub error (last_error pid2);
          pid3 = pid2\<lparr> last_error := error \<rparr>;
          output = fadd (fadd (fmul (kp pid3) error) (fmul (ki pid3) (integral pid3)))
                        (fmul (kd pid3) derivative);
          dose_ml = fmul \<bar>output\<bar> (fdiv volume_liters 10)
      in (constrain dose_ml PUMP_MIN_DOSE_VOLUME PUMP_MAX_DOSE_VOLUME, pid3))"

definition start_pump_dose :: "u32 \<Rightarrow> PumpId \<Rightarrow> real \<Rightarrow> real \<Rightarrow> world \<Rightarrow> bool \<times> world" where
  "start_pump_dose now pump_id dose_ml flow_rate w =
     (let idx = pump_index pump_id
      in if idx \<ge> 4 then (False, w)
         else if pump_states (state_manager w) idx \<noteq> PUMP_IDLE then (False, w)
         else
           let w1 = map_pump idx
                      (\<lambda>p. p\<lparr> run_duration_ms :=
                                float_to_u32 (fmul (fdiv dose_ml flow_rate) 60000) \<rparr>) w;
               w2 = (if run_duration_ms (pumps w1 idx) > PUMP_TIMEOUT_MS
                     then map_pump idx (\<lambda>p. p\<lparr> run_duration_ms := PUMP_TIMEOUT_MS \<rparr>) w1
                     else w1);
               pwm_duty = calculate_pwm_duty flow_rate;
               r = pump_transition_to now pump_id PUMP_PRIMING (state_manager w2);
               w3 = w2\<lparr> state_manager := snd r \<rparr>
           in if \<not> fst r then (False, w3)
              else
                let w4 = map_pump idx (\<lambda>p. p\<lparr> target_pwm_duty := pwm_duty \<rparr>) w3;
                    w5 = map_pump idx (\<lambda>p. p\<lparr> start_time := now \<rparr>) w4;
                    w6 = map_controller idx
                           (\<lambda>c. c\<lparr> last_dose_time := now,
                                    doses_this_hour := doses_this_hour c + 1,
                                    total_ml_dosed := fadd (total_ml_dosed c) dose_ml \<rparr>) w5
                in (True, w6))"

subsection \<open>Public system functions (pump.cpp)\<close>

text \<open>\<^verbatim>\<open>pump_init\<close>; the pin constants are those of \<^verbatim>\<open>pump.h\<close>.\<close>

definition gpio_pins :: "nat \<Rightarrow> u8" where
  "gpio_pins i = (if i = 0 then 11 else if i = 1 then 12 else if i = 2 then 13 else 14)"

definition pump_init_one :: "u32 \<Rightarrow> nat \<Rightarrow> world \<Rightarrow> world" where
  "pump_init_one now i w =
     (let w1 = w\<lparr> pumps := (pumps w)(i := pump_init_t now) \<rparr>;
          w2 = map_pump i (\<lambda>p. p\<lparr> gpio_pin := gpio_pins i \<rparr>) w1
      in ledcWrite (gpio_pin (pumps w2 i)) 0 w2)"

definition pump_init :: "u32 \<Rightarrow> world \<Rightarrow> bool \<times> world" where
  "pump_init now w =
     (let w1 = fold (pump_init_one now) [0..<4] w
      in (True, w1\<lparr> pump_system := (pump_system w1)\<lparr> initialized := True \<rparr> \<rparr>))"

text \<open>The body of the loop of \<^verbatim>\<open>pump_update\<close> for the pump with index \<open>i\<close>.\<close>

definition pump_update_one :: "u32 \<Rightarrow> nat \<Rightarrow> world \<Rightarrow> world" where
  "pump_update_one now i w =
     (let pump = pumps w i;
          current_state = pump_states (state_manager w) i;
          state_duration = pump_get_state_duration_ms now (PumpId_of i) (state_manager w)
      in case current_state of
           PUMP_IDLE \<Rightarrow>
             map_pump i (\<lambda>p. p\<lparr> running := False \<rparr>) (ledcWrite (gpio_pin pump) 0 w)
         | PUMP_PRIMING \<Rightarrow>
             if state_duration < 2500
             then let priming_pwm = float_to_u8 (fmul 255 0.25)
                  in map_pump i (\<lambda>p. p\<lparr> running := True \<rparr>)
                       (ledcWrite (gpio_pin pump) (ucast priming_pwm) w)
             else w\<lparr> state_manager :=
                       snd (pump_transition_to now (PumpId_of i) PUMP_DOSING (state_manager w)) \<rparr>
         | PUMP_DOSING \<Rightarrow>
             if state_duration < run_duration_ms pump
             then let w1 = (if state_duration = 0
                            then ledcWrite (gpio_pin pump) (ucast (target_pwm_duty pump)) w
                            else w)
                  in map_pump i (\<lambda>p. p\<lparr> running := True \<rparr>) w1
             else let w1 = ledcWrite (gpio_pin pump) 0 w;
                      w2 = map_pump i (\<lambda>p. p\<lparr> running := False \<rparr>) w1
                  in w2\<lparr> state_manager :=
                           snd (pump_transition_to now (PumpId_of i) PUMP_COOLING_DOWN
                                  (state_manager w2)) \<rparr>
         | PUMP_COOLING_DOWN \<Rightarrow>
             map_pump i (\<lambda>p. p\<lparr> running := False \<rparr>) (ledcWrite (gpio_pin pump) 0 w)
         | PUMP_ERROR \<Rightarrow>
             map_pump i (\<lambda>p. p\<lparr> running := False \<rparr>) (ledcWrite (gpio_pin pump) 0 w)
         | PUMP_MAINTENANCE \<Rightarrow> w)"

definition pump_update :: "u32 \<Rightarrow> world \<Rightarrow> world" where
  "pump_update now w =
     (if \<not> initialized (pump_system w) then w
      else fold (pump_update_one now) [0..<4] w)"

subsection \<open>pH control functions (pump.cpp)\<close>

definition pump_ph_dose :: "u32 \<Rightarrow> real \<Rightarrow> real \<Rightarrow> world \<Rightarrow> bool \<times> world" where
  "pump_ph_dose now current_ph volume_liters w =
     (if \<not> initialized (pump_system w) \<or> \<not> auto_ph_control (pump_system w) then (False, w)
      else if volume_liters < 5 \<or> volume_liters > 200 then (False, w)
      else if current_ph < 4 \<or> current_ph > 9 then (False, w)
      else
        let pump_id = (if current_ph > target_value (controller (pumps w (pump_index PH_UP)))
                       then PH_DOWN else PH_UP);
            idx = pump_index pump_id;
            g = can_dose_safely now pump_id w
        in if \<not> fst g then (False, snd g)
           else
             let d = calculate_pid_dose (controller (pumps (snd g) idx)) current_ph volume_liters;
                 dose_ml = fst d;
                 w2 = map_pump idx (\<lambda>p. p\<lparr> controller := snd d \<rparr>) (snd g)
             in if dose_ml < PUMP_MIN_DOSE_VOLUME then (False, w2)
                else start_pump_dose now pump_id dose_ml PUMP_DEFAULT_FLOW_RATE w2)"

definition set_ph_target_one :: "real \<Rightarrow> nat \<Rightarrow> world \<Rightarrow> world" where
  "set_ph_target_one target_ph i w =
     map_controller i (\<lambda>c. c\<lparr> target_value := target_ph, integral := 0, last_error := 0 \<rparr>) w"

definition pump_set_ph_target :: "real \<Rightarrow> world \<Rightarrow> world" where
  "pump_set_ph_target target_ph w =
     (let t = constrain target_ph 5 8
      in fold (set_ph_target_one t) [0..<4] w)"

definition pump_get_ph_target :: "world \<Rightarrow> real" where
  "pump_get_ph_target w = target_value (controller (pumps w (pump_index PH_UP)))"

definition pump_manual_dose :: "u32 \<Rightarrow> PumpId \<Rightarrow> real \<Rightarrow> world \<Rightarrow> bool \<times> world" where
  "pump_manual_dose now pump ml w =
     (let idx = pump_index pump
      in if idx \<ge> 4 \<or> \<not> initialized (pump_system w) then (False, w)
         else
           let ml' = constrain ml PUMP_MIN_DOSE_VOLUME PUMP_MAX_DOSE_VOLUME;
               g = can_dose_safely now pump w
           in if \<not> fst g then (False, snd g)
              else start_pump_dose now pump ml' PUMP_DEFAULT_FLOW_RATE (snd g))"

subsection \<open>Automatic and manual control (pump.cpp)\<close>

definition reset_pid_one :: "nat \<Rightarrow> world \<Rightarrow> world" where
  "reset_pid_one i w = map_controller i (\<lambda>c. c\<lparr> integral := 0, last_error := 0 \<rparr>) w"

definition pump_enable_auto_ph :: "bool \<Rightarrow> world \<Rightarrow> world" where
  "pump_enable_auto_ph enabled w =
     (let w1 = w\<lparr> pump_system := (pump_system w)\<lparr> auto_ph_control := enabled \<rparr> \<rparr>
      in if enabled then fold reset_pid_one [0..<4] w1 else w1)"

definition pump_start_manual :: "u32 \<Rightarrow> PumpId \<Rightarrow> real \<Rightarrow> world \<Rightarrow> bool \<times> world" where
  "pump_start_manual now pump ml_per_min w =
     (let idx = pump_index pump
      in if idx \<ge> 4 \<or> \<not> initialized (pump_system w) then (False, w)
         else if pump_states (state_manager w) idx \<noteq> PUMP_IDLE then (False, w)
         else
           let rate = constrain ml_per_min PUMP_MIN_FLOW_RATE PUMP_MAX_FLOW_RATE;
               pwm_duty = calculate_pwm_duty rate;
               w1 = map_pump idx (\<lambda>p. p\<lparr> target_pwm_duty := pwm_duty \<rparr>) w;
               r = pump_transition_to now pump PUMP_DOSING (state_manager w1);
               w2 = w1\<lparr> state_manager := snd r \<rparr>
           in if \<not> fst r then (False, w2)
              else
                let w3 = ledcWrite (gpio_pin (pumps w2 idx)) (ucast pwm_duty) w2;
                    w4 = map_pump idx
                           (\<lambda>p. p\<lparr> running := True, start_time := now,
                                    run_duration_ms := PUMP_TIMEOUT_MS \<rparr>) w3
                in (True, w4))"

definition pump_stop_manual :: "u32 \<Rightarrow> PumpId \<Rightarrow> world \<Rightarrow> bool \<times> world" where
  "pump_stop_manual now pump w =
     (let idx = pump_index pump
      in if idx \<ge> 4 then (False, w)
         else
           let w1 = ledcWrite (gpio_pin (pumps w idx)) 0 w;
               w2 = map_pump idx
                      (\<lambda>p. p\<lparr> running := False, start_time := 0, run_duration_ms := 0 \<rparr>) w1;
               current_state = pump_states (state_manager w2) idx;
               target = (if current_state = PUMP_DOSING \<or> current_state = PUMP_PRIMING
                         then PUMP_COOLING_DOWN else PUMP_IDLE)
           in (True, w2\<lparr> state_manager :=
                           snd (pump_transition_to now pump target (state_manager w2)) \<rparr>))"

definition pump_stop_one :: "u32 \<Rightarrow> nat \<Rightarrow> world \<Rightarrow> world" where
  "pump_stop_one now i w =
     (let w1 = ledcWrite (gpio_pin (pumps w i)) 0 w;
          w2 = map_pump i (\<lambda>p. p\<lparr> running := False \<rparr>) w1
      in w2\<lparr> state_manager :=
               snd (pump_transition_to now (PumpId_of i) PUMP_IDLE (state_manager w2)) \<rparr>)"

definition pump_stop_all :: "u32 \<Rightarrow> world \<Rightarrow> world" where
  "pump_stop_all now w = fold (pump_stop_one now) [0..<4] w"

subsection \<open>Reference configurations\<close>

text \<open>
  The globals as their static initialisers leave them (clock at 0), and the configuration
  that \<^verbatim>\<open>setup()\<close> of main.cpp and the operator reach from there, in the order of
  \<^verbatim>\<open>setup()\<close>: \<^verbatim>\<open>state_machine_init\<close>, the transition from Startup to Initializing,
  \<^verbatim>\<open>pump_init\<close>, the transition to Monitoring, and automatic pH control switched on.
\<close>

definition boot_world :: world where
  "boot_world =
     \<lparr> pumps = (\<lambda>i. pump_init_t 0),
       pump_system = \<lparr> auto_ph_control = False, auto_ec_control = False, initialized = False \<rparr>,
       state_manager = state_manager_init 0,
       ledc = (\<lambda>pin. 0) \<rparr>"

definition ready_world :: world where
  "ready_world =
     (let sm1 = snd (state_machine_init 0 (state_manager boot_world));
          sm2 = snd (system_transition_to 0 SYS_INITIALIZING sm1);
          w1 = snd (pump_init 0 (boot_world\<lparr> state_manager := sm2 \<rparr>));
          sm3 = snd (system_transition_to 0 SYS_MONITORING (state_manager w1))
      in pump_enable_auto_ph True (w1\<lparr> state_manager := sm3 \<rparr>))"

text \<open>
  A manual dose of 10 ml by the pH-up pump accepted at tick 400000, followed by
  \<^verbatim>\<open>pump_stop_all\<close> at tick 450000, which returns every pump to Idle.
\<close>

definition dosed_world :: world where
  "dosed_world = snd (pump_manual_dose 400000 PH_UP 10 ready_world)"

definition stopped_world :: world where
  "stopped_world = pump_stop_all 450000 dosed_world"

text \<open>
  An automatic dose and the sequencer calls that follow it: the dose is accepted at tick
  400000 (pH 7.0, 20 l), the sequencer runs one tick later, again when the priming time of
  2500 ms has passed, on the following tick, and when the run duration has passed.
\<close>

definition trace_accepted :: world where
  "trace_accepted = snd (pump_ph_dose 400000 7 20 ready_world)"

definition trace_priming :: world where
  "trace_priming = pump_update 400001 trace_accepted"

definition trace_dosing_entered :: world where
  "trace_dosing_entered = pump_update 402500 trace_priming"

definition trace_dosing_next_tick :: world where
  "trace_dosing_next_tick = pump_update 402501 trace_dosing_entered"

definition trace_dose_complete :: world where
  "trace_dose_complete = pump_update 444500 trace_dosing_next_tick"

text \<open>The float that \<^verbatim>\<open>calculate_pwm_duty\<close> converts to eight bits.\<close>

definition duty_value :: "real \<Rightarrow> real" where
  "duty_value r =
     fdiv (fmul (fadd 10 (fdiv (fmul (fsub (constrain r (f32 5.2) 90) (f32 5.2)) 90)
                               (f32 84.8))) 255) 100"

section \<open>Properties of the state manager\<close>

lemma upt_4: "[0..<4] = [0, 1, 2, 3::nat]"
  by (simp add: upt_rec)

lemma less_4_cases: "i < (4::nat) \<Longrightarrow> i = 0 \<or> i = 1 \<or> i = 2 \<or> i = 3"
  by arith

text \<open>
  Claim C3. From every configuration of the machines, one call of
  \<^verbatim>\<open>state_machine_emergency_stop\<close> leaves the device in Error, each of the four pumps in
  Idle and the sensor in Ready, all stamped with the current time. The function is total
  and consults no legality table: the result holds for every prior state, also for prior
  states from which the table would refuse the target.
\<close>

theorem emergency_stop_forces_safe_states:
  "system_state (state_machine_emergency_stop now sm) = SYS_ERROR
   \<and> (\<forall>i<4. pump_states (state_machine_emergency_stop now sm) i = PUMP_IDLE
            \<and> pump_state_entry_times (state_machine_emergency_stop now sm) i = now)
   \<and> sensor_state (state_machine_emergency_stop now sm) = SENSOR_READY
   \<and> system_state_entry_time (state_machine_emergency_stop now sm) = now
   \<and> sensor_state_entry_time (state_machine_emergency_stop now sm) = now"
  by (auto simp: state_machine_emergency_stop_def emergency_stop_pump_def upt_4
           dest!: less_4_cases)

theorem emergency_stop_forces_safe_states_witness:
  "(1::nat) < 4
   \<and> pump_states (state_machine_emergency_stop 5
        ((state_manager_init 0)\<lparr> pump_states := (\<lambda>i. PUMP_DOSING),
                                  sensor_state := SENSOR_WARMING_UP \<rparr>)) 1 = PUMP_IDLE
   \<and> pump_state_entry_times (state_machine_emergency_stop 5
        ((state_manager_init 0)\<lparr> pump_states := (\<lambda>i. PUMP_DOSING),
                                  sensor_state := SENSOR_WARMING_UP \<rparr>)) 1 = 5"
  using emergency_stop_forces_safe_states
    [of 5 "(state_manager_init 0)\<lparr> pump_states := (\<lambda>i. PUMP_DOSING),
                                     sensor_state := SENSOR_WARMING_UP \<rparr>"]
  by simp

text \<open>
  Claim C4. A requested transition of the device machine, or of a pump machine, that the
  legality table does not permit from the current state returns false and leaves the whole
  state manager as it was: in particular the state value and its entry timestamp.
\<close>

theorem illegal_transition_rejected:
  "(\<not> is_valid_system_transition (system_state sm) to
      \<longrightarrow> system_transition_to now to sm = (False, sm))
   \<and> (\<not> is_valid_pump_transition (pump_states sm (pump_index p)) pto
      \<longrightarrow> pump_transition_to now p pto sm = (False, sm))"
  by (simp add: system_transition_to_def pump_transition_to_def Let_def)

theorem illegal_transition_rejected_witness:
  "\<not> is_valid_system_transition (system_state (state_manager_init 7)) SYS_MONITORING
   \<and> system_transition_to 9 SYS_MONITORING (state_manager_init 7) = (False, state_manager_init 7)
   \<and> \<not> is_valid_pump_transition (pump_states (state_manager_init 7) (pump_index PH_UP)) PUMP_DOSING
   \<and> pump_transition_to 9 PH_UP PUMP_DOSING (state_manager_init 7) = (False, state_manager_init 7)"
  using illegal_transition_rejected [of "state_manager_init 7" SYS_MONITORING 9 PH_UP PUMP_DOSING]
  by (simp add: state_manager_init_def)

section \<open>Properties of the binary32 rounding\<close>

lemma round_half_even_of_int: "round_half_even (of_int n) = n"
  by (simp add: round_half_even_def)

lemma round_half_even_range:
  "\<lfloor>y\<rfloor> \<le> round_half_even y \<and> round_half_even y \<le> \<lfloor>y\<rfloor> + 1"
  by (simp add: round_half_even_def Let_def)

lemma round_half_even_mono:
  assumes "y \<le> z"
  shows "round_half_even y \<le> round_half_even z"
proof (cases "\<lfloor>y\<rfloor> = \<lfloor>z\<rfloor>")
  case True
  have "y - of_int \<lfloor>z\<rfloor> \<le> z - of_int \<lfloor>z\<rfloor>" using assms by simp
  then show ?thesis
    using True by (auto simp: round_half_even_def Let_def)
next
  case False
  have "\<lfloor>y\<rfloor> \<le> \<lfloor>z\<rfloor>" using assms by (rule floor_mono)
  with False have "\<lfloor>y\<rfloor> + 1 \<le> \<lfloor>z\<rfloor>" by simp
  then show ?thesis
    using round_half_even_range [of y] round_half_even_range [of z] by linarith
qed

lemma two_powi_le: "a \<le> b \<Longrightarrow> (2::real) powi a \<le> 2 powi b"
  by (intro power_int_increasing) simp_all

lemma two_powi_nat: "0 \<le> k \<Longrightarrow> (2::real) powi k = of_int (2 ^ nat k)"
  by (simp add: power_int_def)

lemma binade_ge: "- 126 \<le> binade x"
proof -
  have "0 \<le> bitlen \<lfloor>x\<rfloor> - 1" if "1 \<le> x"
  proof -
    from that have "0 < \<lfloor>x\<rfloor>" by simp
    then have "1 \<le> bitlen \<lfloor>x\<rfloor>" by (auto simp: bitlen_alt_def)
    then show ?thesis by simp
  qed
  then show ?thesis by (auto simp: binade_def)
qed

lemma two_powi_neg: "0 \<le> k \<Longrightarrow> (2::real) powi (- k) = 1 / of_int (2 ^ nat k)"
  by (simp add: power_int_minus_divide two_powi_nat)

lemma binade_upper:
  assumes "0 \<le> x"
  shows "x < 2 powi (binade x + 1)"
proof -
  consider "1 \<le> x" | "0 < x" "x < 1" | "x = 0" using assms by linarith
  then show ?thesis
  proof cases
    case 1
    define n where "n = \<lfloor>x\<rfloor>"
    have n: "0 < n" using 1 by (simp add: n_def)
    have b: "1 \<le> bitlen n" using n by (auto simp: bitlen_alt_def)
    have "n < 2 ^ nat (bitlen n)" using bitlen_bounds [OF n] by simp
    then have "n + 1 \<le> 2 ^ nat (bitlen n)" by simp
    then have "(of_int (n + 1) :: real) \<le> of_int (2 ^ nat (bitlen n))"
      by (simp only: of_int_le_iff)
    moreover have "x < of_int (n + 1)" by (simp add: n_def)
    ultimately have "x < of_int (2 ^ nat (bitlen n))" by linarith
    moreover have "binade x + 1 = bitlen n" using 1 by (simp add: binade_def n_def)
    ultimately show ?thesis using b by (simp add: two_powi_nat)
  next
    case 2
    define m where "m = \<lceil>1 / x\<rceil>"
    define j where "j = bitlen (m - 1)"
    have y: "1 < 1 / x" using 2 by simp
    then have m: "0 < m - 1" by (simp add: m_def less_ceiling_iff)
    have j: "1 \<le> j" using m by (auto simp: j_def bitlen_alt_def)
    have "2 ^ nat (j - 1) \<le> m - 1" using bitlen_bounds [OF m] by (simp add: j_def)
    then have "(of_int (2 ^ nat (j - 1)) :: real) \<le> of_int (m - 1)"
      by (simp only: of_int_le_iff)
    moreover have "of_int (m - 1) < 1 / x"
      unfolding m_def by (metis ceiling_diff_one ceiling_correct diff_less_eq less_add_one
          linorder_not_le order_less_le_trans of_int_diff of_int_1)
    ultimately have lt: "of_int (2 ^ nat (j - 1)) < 1 / x" by linarith
    have p: "(0::real) < of_int (2 ^ nat (j - 1))" by simp
    have "x < 1 / of_int (2 ^ nat (j - 1))"
      using lt 2(1) p by (simp add: field_simps)
    also have "\<dots> = 2 powi (- (j - 1))" using j two_powi_neg [of "j - 1"] by simp
    also have "\<dots> \<le> 2 powi (binade x + 1)"
    proof (rule two_powi_le)
      have "binade x = max (- 126) (- j)" using 2 by (simp add: binade_def j_def m_def)
      then show "- (j - 1) \<le> binade x + 1" by simp
    qed
    finally show ?thesis .
  next
    case 3
    then show ?thesis by simp
  qed
qed

lemma binade_lower:
  assumes "0 \<le> x" and "- 126 < binade x"
  shows "2 powi (binade x) \<le> x"
proof -
  consider "1 \<le> x" | "0 < x" "x < 1" | "x = 0" using assms by linarith
  then show ?thesis
  proof cases
    case 1
    define n where "n = \<lfloor>x\<rfloor>"
    have n: "0 < n" using 1 by (simp add: n_def)
    have b: "1 \<le> bitlen n" using n by (auto simp: bitlen_alt_def)
    have "2 ^ nat (bitlen n - 1) \<le> n" using bitlen_bounds [OF n] by simp
    then have "(of_int (2 ^ nat (bitlen n - 1)) :: real) \<le> of_int n"
      by (simp only: of_int_le_iff)
    moreover have "of_int n \<le> x" by (simp add: n_def)
    ultimately have "of_int (2 ^ nat (bitlen n - 1)) \<le> x" by linarith
    moreover have "binade x = bitlen n - 1" using 1 by (simp add: binade_def n_def)
    ultimately show ?thesis using b by (simp add: two_powi_nat)
  next
    case 2
    define m where "m = \<lceil>1 / x\<rceil>"
    define j where "j = bitlen (m - 1)"
    have y: "1 < 1 / x" using 2 by simp
    then have m: "0 < m - 1" by (simp add: m_def less_ceiling_iff)
    have j: "1 \<le> j" using m by (auto simp: j_def bitlen_alt_def)
    have bj: "binade x = - j"
      using 2 assms(2) by (auto simp: binade_def j_def m_def max_def split: if_splits)
    have "m - 1 < 2 ^ nat j" using bitlen_bounds [OF m] by (simp add: j_def)
    then have "m \<le> 2 ^ nat j" by simp
    then have "(of_int m :: real) \<le> of_int (2 ^ nat j)" by (simp only: of_int_le_iff)
    moreover have "1 / x \<le> of_int m" by (simp add: m_def)
    ultimately have le: "1 / x \<le> of_int (2 ^ nat j)" by linarith
    have p: "(0::real) < of_int (2 ^ nat j)" by simp
    have "1 / of_int (2 ^ nat j) \<le> x"
      using le 2(1) p by (simp add: field_simps)
    then show ?thesis using j by (simp add: bj two_powi_neg)
  next
    case 3
    then show ?thesis using assms(2) by (simp add: binade_def)
  qed
qed

lemma f32_abs_nonneg: "0 \<le> x \<Longrightarrow> 0 \<le> f32_abs x"
proof -
  assume "0 \<le> x"
  then have "0 \<le> x / 2 powi (binade x - 23)" by simp
  then have "0 \<le> \<lfloor>x / 2 powi (binade x - 23)\<rfloor>" by simp
  then have "0 \<le> round_half_even (x / 2 powi (binade x - 23))"
    using round_half_even_range [of "x / 2 powi (binade x - 23)"] by linarith
  then show ?thesis by (simp add: f32_abs_def)
qed

lemma f32_abs_upper:
  assumes "0 \<le> x"
  shows "f32_abs x \<le> 2 powi (binade x + 1)"
proof -
  define u :: real where "u = 2 powi (binade x - 23)"
  have u: "0 < u" by (simp add: u_def)
  have s: "2 powi (binade x + 1) = 2 ^ 24 * u"
    unfolding u_def by (simp add: power_int_add power_int_diff)
  have "x \<le> 2 ^ 24 * u" using binade_upper [OF assms] s by simp
  then have "x / u \<le> of_int (2 ^ 24)" using u by (simp add: field_simps)
  then have "round_half_even (x / u) \<le> round_half_even (of_int (2 ^ 24))"
    by (rule round_half_even_mono)
  then have "round_half_even (x / u) \<le> 2 ^ 24" by (simp only: round_half_even_of_int)
  then have "(of_int (round_half_even (x / u)) :: real) \<le> of_int (2 ^ 24)"
    by (simp only: of_int_le_iff)
  then have "of_int (round_half_even (x / u)) * u \<le> 2 ^ 24 * u"
    using u by simp
  then show ?thesis by (simp add: f32_abs_def s flip: u_def)
qed

lemma f32_abs_lower:
  assumes "0 \<le> x" and "- 126 < binade x"
  shows "2 powi (binade x) \<le> f32_abs x"
proof -
  define u :: real where "u = 2 powi (binade x - 23)"
  have u: "0 < u" by (simp add: u_def)
  have s: "2 powi (binade x) = 2 ^ 23 * u"
    unfolding u_def by (simp add: power_int_diff)
  have "2 ^ 23 * u \<le> x" using binade_lower [OF assms] s by simp
  then have "of_int (2 ^ 23) \<le> x / u" using u by (simp add: field_simps)
  then have "round_half_even (of_int (2 ^ 23)) \<le> round_half_even (x / u)"
    by (rule round_half_even_mono)
  then have "2 ^ 23 \<le> round_half_even (x / u)" by (simp only: round_half_even_of_int)
  then have "(of_int (2 ^ 23) :: real) \<le> of_int (round_half_even (x / u))"
    by (simp only: of_int_le_iff)
  then have "2 ^ 23 * u \<le> of_int (round_half_even (x / u)) * u"
    using u by simp
  then show ?thesis by (simp add: f32_abs_def s flip: u_def)
qed

lemma binade_mono:
  assumes "0 \<le> x" and "x \<le> y"
  shows "binade x \<le> binade y"
proof (rule ccontr)
  assume "\<not> binade x \<le> binade y"
  then have lt: "binade y + 1 \<le> binade x" by simp
  have "- 126 < binade x" using lt binade_ge [of y] by linarith
  then have "2 powi (binade x) \<le> x" using assms(1) by (intro binade_lower)
  moreover have "y < 2 powi (binade y + 1)" using assms by (intro binade_upper) simp
  moreover have "(2::real) powi (binade y + 1) \<le> 2 powi (binade x)"
    using lt by (rule two_powi_le)
  ultimately show False using assms(2) by linarith
qed

lemma f32_abs_mono:
  assumes "0 \<le> x" and "x \<le> y"
  shows "f32_abs x \<le> f32_abs y"
proof (cases "binade x = binade y")
  case True
  have "x / 2 powi (binade y - 23) \<le> y / 2 powi (binade y - 23)"
    using assms(2) by (simp add: divide_right_mono)
  then have "round_half_even (x / 2 powi (binade y - 23))
      \<le> round_half_even (y / 2 powi (binade y - 23))"
    by (rule round_half_even_mono)
  then have "(of_int (round_half_even (x / 2 powi (binade y - 23))) :: real)
      \<le> of_int (round_half_even (y / 2 powi (binade y - 23)))"
    by (simp only: of_int_le_iff)
  then show ?thesis
    by (simp add: f32_abs_def True mult_right_mono)
next
  case False
  have y0: "0 \<le> y" using assms by simp
  have "binade x \<le> binade y" using assms by (rule binade_mono)
  with False have lt: "binade x + 1 \<le> binade y" by simp
  then have biny: "- 126 < binade y" using binade_ge [of x] by linarith
  have "f32_abs x \<le> 2 powi (binade x + 1)" using assms(1) by (rule f32_abs_upper)
  also have "\<dots> \<le> 2 powi (binade y)" using lt by (rule two_powi_le)
  also have "\<dots> \<le> f32_abs y" using y0 biny by (rule f32_abs_lower)
  finally show ?thesis .
qed

lemma f32_mono:
  assumes "x \<le> y"
  shows "f32 x \<le> f32 y"
proof -
  consider "0 \<le> x" | "x < 0" "0 \<le> y" | "x < 0" "y < 0" by linarith
  then show ?thesis
  proof cases
    case 1
    then have "f32_abs x \<le> f32_abs y" using assms by (rule f32_abs_mono)
    then show ?thesis using 1 assms by (simp add: f32_def)
  next
    case 2
    have "0 \<le> f32_abs (- x)" using 2(1) by (intro f32_abs_nonneg) simp
    moreover have "0 \<le> f32_abs y" using 2(2) by (rule f32_abs_nonneg)
    ultimately show ?thesis using 2 by (simp add: f32_def)
  next
    case 3
    have "f32_abs (- y) \<le> f32_abs (- x)" using 3 assms by (intro f32_abs_mono) simp_all
    then show ?thesis using 3 by (simp add: f32_def)
  qed
qed

section \<open>Properties of the pump engine\<close>

subsection \<open>Evaluation of binary32 arithmetic\<close>

lemmas f32_eval = f32_def f32_abs_def binade_def compute_bitlen round_half_even_def
  fadd_def fsub_def fmul_def fdiv_def Let_def

lemma f32_literals: "f32 (26 / 5) = 10905190 / 2097152" "f32 (424 / 5) = 11114906 / 131072"
  by (simp_all add: f32_eval)

lemma calculate_pwm_duty_eq: "calculate_pwm_duty r = float_to_u8 (duty_value r)"
  unfolding calculate_pwm_duty_def duty_value_def Let_def by (rule refl)

lemma duty_value_at:
  "duty_value (f32 (26 / 5)) = 51 / 2" "duty_value (26 / 5) = 51 / 2" "duty_value 90 = 255"
  "duty_value 30 = 12139617 / 131072"
  by (simp_all add: duty_value_def constrain_def f32_eval)

lemma calculate_pwm_duty_30: "calculate_pwm_duty 30 = 92"
  by (simp add: calculate_pwm_duty_eq duty_value_at float_to_u8_def truncate_def)

text \<open>
  A rate at which the rounding shows: without rounding the value before truncation would
  be 41.9999998, truncated to 41.
\<close>

lemma calculate_pwm_duty_rounded: "calculate_pwm_duty (5922741 / 524288) = 42"
  by (simp add: calculate_pwm_duty_eq duty_value_def constrain_def float_to_u8_def truncate_def
        f32_eval)

lemma priming_pwm: "float_to_u8 (fmul 255 (1 / 4)) = 63"
  by (simp add: float_to_u8_def truncate_def f32_eval)

lemma run_duration_at:
  "float_to_u32 (fmul (fdiv 21 30) 60000) = 42000"
  "float_to_u32 (fmul (fdiv 5 30) 60000) = 10000"
  "float_to_u32 (fmul (fdiv 10 30) 60000) = 20000"
  by (simp_all add: float_to_u32_def truncate_def f32_eval)

text \<open>A dose at which the rounding shows: without rounding the result would be 15750.\<close>

lemma run_duration_rounded: "float_to_u32 (fmul (fdiv (63 / 8) 30) 60000) = 15749"
  by (simp add: float_to_u32_def truncate_def f32_eval)

lemma fadd_at: "fadd 0 21 = 21" "fadd 0 5 = 5" "fadd 0 10 = 10"
  by (simp_all add: f32_eval)

lemma calculate_pid_dose_scenario:
  assumes "target_value c = 6" and "integral c = 0" and "last_error c = 0"
    and "kp c = 8" and "ki c = 1 / 2" and "kd c = 2"
  shows "calculate_pid_dose c 7 20 = (21, c\<lparr> integral := - 1, last_error := - 1 \<rparr>)"
  unfolding calculate_pid_dose_def Let_def
  by (simp add: assms constrain_def f32_eval)

lemma calculate_pid_dose_at_target:
  assumes "target_value c = 6" and "integral c = 0" and "last_error c = 0"
    and "kp c = 8" and "ki c = 1 / 2" and "kd c = 2"
  shows "calculate_pid_dose c 6 20 = (5, c\<lparr> integral := 0, last_error := 0 \<rparr>)"
  unfolding calculate_pid_dose_def Let_def
  by (simp add: assms constrain_def f32_eval)

subsection \<open>Evaluation of the reference configurations\<close>

lemmas config_defs = boot_world_def ready_world_def pump_init_def pump_init_one_def
  pump_init_t_def pid_controller_init_def state_manager_init_def state_machine_init_def
  state_machine_init_one_def system_transition_to_def
  pump_enable_auto_ph_def reset_pid_one_def map_controller_def map_pump_def ledcWrite_def
  upt_4 gpio_pins_def Let_def

lemmas engine_defs = pump_ph_dose_def can_dose_safely_def calculate_pid_dose_scenario
  calculate_pid_dose_at_target constrain_def start_pump_dose_def pump_transition_to_def
  calculate_pwm_duty_30 run_duration_at fadd_at priming_pwm pump_manual_dose_def
  pump_update_def pump_update_one_def pump_get_state_duration_ms_def PumpId_of_def
  pump_stop_all_def pump_stop_one_def pump_start_manual_def pump_stop_manual_def

subsection \<open>The safety gate\<close>

lemma stopped_world_fields:
  "pump_states (state_manager stopped_world) 0 = PUMP_IDLE"
  "system_state (state_manager stopped_world) = SYS_MONITORING"
  "last_dose_time (controller (pumps stopped_world 0)) = 400000"
  "doses_this_hour (controller (pumps stopped_world 0)) = 1"
  "hour_start (controller (pumps stopped_world 0)) = 0"
  "target_value (controller (pumps stopped_world 0)) = 6"
  "initialized (pump_system stopped_world)"
  "auto_ph_control (pump_system stopped_world)"
  by (simp_all add: stopped_world_def dosed_world_def config_defs engine_defs)

lemma gate_result:
  "fst (can_dose_safely now p w) \<longleftrightarrow>
     pump_states (state_manager w) (pump_index p) = PUMP_IDLE
   \<and> 300000 \<le> now - last_dose_time (controller (pumps w (pump_index p)))
   \<and> uint (if 3600000 \<le> now - hour_start (controller (pumps w (pump_index p)))
            then 0 else doses_this_hour (controller (pumps w (pump_index p)))) < 3
   \<and> (system_state (state_manager w) = SYS_MONITORING
        \<or> system_state (state_manager w) = SYS_DOSING)"
  by (auto simp: can_dose_safely_def Let_def map_controller_def map_pump_def not_less)

lemma gate_state:
  "snd (can_dose_safely now p w) =
     (if pump_states (state_manager w) (pump_index p) = PUMP_IDLE
         \<and> 300000 \<le> now - last_dose_time (controller (pumps w (pump_index p)))
         \<and> 3600000 \<le> now - hour_start (controller (pumps w (pump_index p)))
      then map_controller (pump_index p)
             (\<lambda>c. c\<lparr> doses_this_hour := 0, hour_start := now \<rparr>) w
      else w)"
  by (auto simp: can_dose_safely_def Let_def not_less)

lemma gate_interval_blocks:
  "now - last_dose_time (controller (pumps w (pump_index p))) = 100000
     \<Longrightarrow> can_dose_safely now p w = (False, w)"
  by (simp add: can_dose_safely_def Let_def)

text \<open>
  Claim C5. For every pump, \<^verbatim>\<open>can_dose_safely\<close> returns true exactly when the pump is
  Idle, at least 300000 ms have elapsed since its last accepted dose, its hourly counter
  is below 3 after the counter has been reset to zero if the hour window of 3600000 ms
  has elapsed, and the device is Monitoring or Dosing. The order of the checks shows in
  the state: the counter is reset, and the window restarted at the current time, exactly
  when the first two checks pass and the window has elapsed. In particular, 100000 ms
  after the last dose the gate answers false and changes nothing, and an attempt to
  start a dose through either entry point that leads to \<^verbatim>\<open>start_pump_dose\<close>
  (\<^verbatim>\<open>pump_manual_dose\<close>, and \<^verbatim>\<open>pump_ph_dose\<close> when it selects this pump) returns false
  and leaves the whole state unchanged. Elapsed times are differences of \<^verbatim>\<open>uint32_t\<close>.
\<close>

theorem can_dose_safely_gates:
  assumes "p \<noteq> COUNT"
  shows "(fst (can_dose_safely now p w) \<longleftrightarrow>
            pump_states (state_manager w) (pump_index p) = PUMP_IDLE
          \<and> 300000 \<le> now - last_dose_time (controller (pumps w (pump_index p)))
          \<and> uint (if 3600000 \<le> now - hour_start (controller (pumps w (pump_index p)))
                   then 0 else doses_this_hour (controller (pumps w (pump_index p)))) < 3
          \<and> (system_state (state_manager w) = SYS_MONITORING
               \<or> system_state (state_manager w) = SYS_DOSING))
       \<and> snd (can_dose_safely now p w) =
           (if pump_states (state_manager w) (pump_index p) = PUMP_IDLE
               \<and> 300000 \<le> now - last_dose_time (controller (pumps w (pump_index p)))
               \<and> 3600000 \<le> now - hour_start (controller (pumps w (pump_index p)))
            then map_controller (pump_index p)
                   (\<lambda>c. c\<lparr> doses_this_hour := 0, hour_start := now \<rparr>) w
            else w)
       \<and> (now - last_dose_time (controller (pumps w (pump_index p))) = 100000 \<longrightarrow>
            can_dose_safely now p w = (False, w)
          \<and> pump_manual_dose now p ml w = (False, w)
          \<and> ((if ph > target_value (controller (pumps w (pump_index PH_UP)))
                then PH_DOWN else PH_UP) = p
              \<longrightarrow> pump_ph_dose now ph vol w = (False, w)))"
proof (intro conjI impI)
  show "fst (can_dose_safely now p w) \<longleftrightarrow>
            pump_states (state_manager w) (pump_index p) = PUMP_IDLE
          \<and> 300000 \<le> now - last_dose_time (controller (pumps w (pump_index p)))
          \<and> uint (if 3600000 \<le> now - hour_start (controller (pumps w (pump_index p)))
                   then 0 else doses_this_hour (controller (pumps w (pump_index p)))) < 3
          \<and> (system_state (state_manager w) = SYS_MONITORING
               \<or> system_state (state_manager w) = SYS_DOSING)"
    by (rule gate_result)
next
  show "snd (can_dose_safely now p w) =
           (if pump_states (state_manager w) (pump_index p) = PUMP_IDLE
               \<and> 300000 \<le> now - last_dose_time (controller (pumps w (pump_index p)))
               \<and> 3600000 \<le> now - hour_start (controller (pumps w (pump_index p)))
            then map_controller (pump_index p)
                   (\<lambda>c. c\<lparr> doses_this_hour := 0, hour_start := now \<rparr>) w
            else w)"
    by (rule gate_state)
next
  assume e: "now - last_dose_time (controller (pumps w (pump_index p))) = 100000"
  then show g: "can_dose_safely now p w = (False, w)" by (rule gate_interval_blocks)
  show "pump_manual_dose now p ml w = (False, w)"
    by (simp add: pump_manual_dose_def Let_def g)
next
  assume e: "now - last_dose_time (controller (pumps w (pump_index p))) = 100000"
    and sel: "(if ph > target_value (controller (pumps w (pump_index PH_UP)))
                then PH_DOWN else PH_UP) = p"
  have g: "can_dose_safely now p w = (False, w)" using e by (rule gate_interval_blocks)
  show "pump_ph_dose now ph vol w = (False, w)"
    unfolding pump_ph_dose_def Let_def sel by (simp add: g)
qed

theorem can_dose_safely_gates_witness:
  "PH_UP \<noteq> COUNT
   \<and> pump_states (state_manager stopped_world) (pump_index PH_UP) = PUMP_IDLE
   \<and> system_state (state_manager stopped_world) = SYS_MONITORING
   \<and> 500000 - last_dose_time (controller (pumps stopped_world (pump_index PH_UP))) = 100000
   \<and> (if 5 > target_value (controller (pumps stopped_world (pump_index PH_UP)))
       then PH_DOWN else PH_UP) = PH_UP
   \<and> \<not> fst (can_dose_safely 500000 PH_UP stopped_world)
   \<and> can_dose_safely 500000 PH_UP stopped_world = (False, stopped_world)
   \<and> pump_manual_dose 500000 PH_UP 10 stopped_world = (False, stopped_world)
   \<and> pump_ph_dose 500000 5 20 stopped_world = (False, stopped_world)"
  using can_dose_safely_gates [of PH_UP 500000 stopped_world 10 5 20]
  by (simp add: stopped_world_fields)

subsection \<open>The duty mapping\<close>

lemma constrain_bounds: "lo \<le> hi \<Longrightarrow> lo \<le> constrain x lo hi \<and> constrain x lo hi \<le> hi"
  by (simp add: constrain_def)

lemma constrain_mono: "lo \<le> hi \<Longrightarrow> x \<le> y \<Longrightarrow> constrain x lo hi \<le> constrain y lo hi"
  by (simp add: constrain_def)

lemma constrain_idem: "lo \<le> hi \<Longrightarrow> constrain (constrain x lo hi) lo hi = constrain x lo hi"
  by (simp add: constrain_def)

lemma fsub_mono_left: "a \<le> b \<Longrightarrow> fsub a c \<le> fsub b c"
  unfolding fsub_def by (intro f32_mono) simp

lemma fadd_mono_right: "a \<le> b \<Longrightarrow> fadd c a \<le> fadd c b"
  unfolding fadd_def by (intro f32_mono) simp

lemma fmul_mono_left: "0 \<le> c \<Longrightarrow> a \<le> b \<Longrightarrow> fmul a c \<le> fmul b c"
  unfolding fmul_def by (intro f32_mono mult_right_mono)

lemma fdiv_mono_left: "0 \<le> c \<Longrightarrow> a \<le> b \<Longrightarrow> fdiv a c \<le> fdiv b c"
  unfolding fdiv_def by (intro f32_mono divide_right_mono)

lemma duty_value_mono:
  assumes "r1 \<le> r2"
  shows "duty_value r1 \<le> duty_value r2"
proof -
  have lo: "f32 5.2 \<le> 90" by (simp add: f32_literals)
  have k: "0 \<le> f32 84.8" by (simp add: f32_literals)
  have "constrain r1 (f32 5.2) 90 \<le> constrain r2 (f32 5.2) 90"
    using lo assms by (rule constrain_mono)
  then have "fsub (constrain r1 (f32 5.2) 90) (f32 5.2) \<le> fsub (constrain r2 (f32 5.2) 90) (f32 5.2)"
    by (rule fsub_mono_left)
  then have "fmul (fsub (constrain r1 (f32 5.2) 90) (f32 5.2)) 90
      \<le> fmul (fsub (constrain r2 (f32 5.2) 90) (f32 5.2)) 90"
    by (intro fmul_mono_left) simp_all
  then have "fdiv (fmul (fsub (constrain r1 (f32 5.2) 90) (f32 5.2)) 90) (f32 84.8)
      \<le> fdiv (fmul (fsub (constrain r2 (f32 5.2) 90) (f32 5.2)) 90) (f32 84.8)"
    using k by (intro fdiv_mono_left)
  then have "fadd 10 (fdiv (fmul (fsub (constrain r1 (f32 5.2) 90) (f32 5.2)) 90) (f32 84.8))
      \<le> fadd 10 (fdiv (fmul (fsub (constrain r2 (f32 5.2) 90) (f32 5.2)) 90) (f32 84.8))"
    by (rule fadd_mono_right)
  then have "fmul (fadd 10 (fdiv (fmul (fsub (constrain r1 (f32 5.2) 90) (f32 5.2)) 90)
                 (f32 84.8))) 255
      \<le> fmul (fadd 10 (fdiv (fmul (fsub (constrain r2 (f32 5.2) 90) (f32 5.2)) 90)
                 (f32 84.8))) 255"
    by (intro fmul_mono_left) simp_all
  then have "fdiv (fmul (fadd 10 (fdiv (fmul (fsub (constrain r1 (f32 5.2) 90) (f32 5.2)) 90)
                 (f32 84.8))) 255) 100
      \<le> fdiv (fmul (fadd 10 (fdiv (fmul (fsub (constrain r2 (f32 5.2) 90) (f32 5.2)) 90)
                 (f32 84.8))) 255) 100"
    by (intro fdiv_mono_left) simp_all
  then show ?thesis by (simp only: duty_value_def)
qed

lemma duty_value_constrain: "duty_value (constrain r (f32 5.2) 90) = duty_value r"
proof -
  have "f32 5.2 \<le> 90" by (simp add: f32_literals)
  then have "constrain (constrain r (f32 5.2) 90) (f32 5.2) 90 = constrain r (f32 5.2) 90"
    by (rule constrain_idem)
  then show ?thesis by (simp only: duty_value_def)
qed

lemma duty_value_bounds: "25.5 \<le> duty_value r \<and> duty_value r \<le> 255"
proof -
  have lo: "f32 5.2 \<le> 90" by (simp add: f32_literals)
  have b: "f32 5.2 \<le> constrain r (f32 5.2) 90" "constrain r (f32 5.2) 90 \<le> 90"
    using constrain_bounds [OF lo, of r] by simp_all
  have "duty_value (f32 5.2) \<le> duty_value r"
    using duty_value_mono [OF b(1)] by (simp only: duty_value_constrain)
  moreover have "duty_value r \<le> duty_value 90"
    using duty_value_mono [OF b(2)] by (simp only: duty_value_constrain)
  ultimately show ?thesis by (simp add: duty_value_at)
qed

lemma floor_duty_bounds: "25 \<le> \<lfloor>duty_value r\<rfloor> \<and> \<lfloor>duty_value r\<rfloor> \<le> 255"
proof -
  have b: "25.5 \<le> duty_value r" "duty_value r \<le> 255"
    using duty_value_bounds [of r] by simp_all
  have "(25::real) \<le> duty_value r" using b(1) by simp
  then have "25 \<le> \<lfloor>duty_value r\<rfloor>" by (simp add: le_floor_iff)
  moreover have "\<lfloor>duty_value r\<rfloor> \<le> 255"
    using b(2) by (simp add: floor_le_iff)
  ultimately show ?thesis by simp
qed

lemma uint_calculate_pwm_duty: "uint (calculate_pwm_duty r) = \<lfloor>duty_value r\<rfloor>"
proof -
  have nn: "\<not> duty_value r < 0" using duty_value_bounds [of r] by simp
  have "calculate_pwm_duty r = word_of_int \<lfloor>duty_value r\<rfloor>"
    using nn by (simp only: calculate_pwm_duty_eq float_to_u8_def truncate_def if_False)
  moreover have "uint (word_of_int \<lfloor>duty_value r\<rfloor> :: u8) = \<lfloor>duty_value r\<rfloor>"
    using floor_duty_bounds [of r] by (simp add: uint_word_of_int)
  ultimately show ?thesis by simp
qed

lemma duty_value_below: "r \<le> 5.2 \<Longrightarrow> duty_value r = 25.5"
proof -
  assume "r \<le> 5.2"
  then have "duty_value r \<le> duty_value 5.2" by (rule duty_value_mono)
  then have "duty_value r \<le> 51 / 2" by (simp add: duty_value_at)
  moreover have "51 / 2 \<le> duty_value r" using duty_value_bounds [of r] by simp
  ultimately show ?thesis by simp
qed

lemma duty_value_above: "90 \<le> r \<Longrightarrow> duty_value r = 255"
proof -
  assume "90 \<le> r"
  then have "duty_value 90 \<le> duty_value r" by (rule duty_value_mono)
  then show ?thesis using duty_value_bounds [of r] by (simp add: duty_value_at)
qed

text \<open>
  Claim C7. \<^verbatim>\<open>calculate_pwm_duty\<close> is monotonically non-decreasing in the flow rate, its
  value lies in the range 0 to 255, rate 5.2 ml/min gives 25 (10 percent of 255 is 25.5,
  truncated), rate 90 ml/min gives 255, and a rate outside 5.2 to 90 is clamped to the
  nearer bound first: every rate up to 5.2 gives the duty of 5.2 and every rate from 90
  gives 255. The order on duties is the unsigned order of \<^verbatim>\<open>uint8_t\<close>. The function is
  the binary32 computation of the source, rounding after each of its six operations; the
  statement covers every real argument, hence every float, and the rate 5.2 both as the
  decimal and as the float \<^verbatim>\<open>5.2f\<close> that a caller can pass.
\<close>

theorem calculate_pwm_duty_monotone_bounded:
  "(r1 \<le> r2 \<longrightarrow> calculate_pwm_duty r1 \<le> calculate_pwm_duty r2)
   \<and> 0 \<le> uint (calculate_pwm_duty r) \<and> uint (calculate_pwm_duty r) \<le> 255
   \<and> calculate_pwm_duty 5.2 = 25
   \<and> calculate_pwm_duty (f32 5.2) = 25
   \<and> calculate_pwm_duty 90 = 255
   \<and> (r \<le> 5.2 \<longrightarrow> calculate_pwm_duty r = calculate_pwm_duty 5.2)
   \<and> (90 \<le> r \<longrightarrow> calculate_pwm_duty r = 255)"
proof -
  have mono: "r1 \<le> r2 \<longrightarrow> calculate_pwm_duty r1 \<le> calculate_pwm_duty r2"
    by (simp add: word_le_def uint_calculate_pwm_duty floor_mono duty_value_mono)
  have bnd: "0 \<le> uint (calculate_pwm_duty r) \<and> uint (calculate_pwm_duty r) \<le> 255"
    using floor_duty_bounds [of r] by (simp add: uint_calculate_pwm_duty)
  have lo: "calculate_pwm_duty 5.2 = 25"
    by (simp add: calculate_pwm_duty_eq duty_value_at float_to_u8_def truncate_def)
  have lof: "calculate_pwm_duty (f32 5.2) = 25"
    by (simp add: calculate_pwm_duty_eq duty_value_at float_to_u8_def truncate_def)
  have hi: "calculate_pwm_duty 90 = 255"
    by (simp add: calculate_pwm_duty_eq duty_value_at float_to_u8_def truncate_def)
  have below: "r \<le> 5.2 \<longrightarrow> calculate_pwm_duty r = calculate_pwm_duty 5.2"
  proof
    assume "r \<le> 5.2"
    then have "duty_value r = 25.5" by (rule duty_value_below)
    then have "duty_value r = duty_value 5.2" by (simp add: duty_value_at)
    then show "calculate_pwm_duty r = calculate_pwm_duty 5.2"
      by (simp only: calculate_pwm_duty_eq)
  qed
  have above: "90 \<le> r \<longrightarrow> calculate_pwm_duty r = 255"
  proof
    assume "90 \<le> r"
    then have "duty_value r = 255" by (rule duty_value_above)
    then have "duty_value r = duty_value 90" by (simp add: duty_value_at)
    then have "calculate_pwm_duty r = calculate_pwm_duty 90"
      by (simp only: calculate_pwm_duty_eq)
    with hi show "calculate_pwm_duty r = 255" by simp
  qed
  from mono bnd lo lof hi below above show ?thesis by blast
qed

theorem calculate_pwm_duty_monotone_bounded_witness:
  "(10::real) \<le> 30 \<and> calculate_pwm_duty 10 \<le> calculate_pwm_duty 30
   \<and> (3::real) \<le> 5.2 \<and> calculate_pwm_duty 3 = calculate_pwm_duty 5.2
   \<and> (90::real) \<le> 120 \<and> calculate_pwm_duty 120 = 255"
  using calculate_pwm_duty_monotone_bounded [of 10 30 3]
        calculate_pwm_duty_monotone_bounded [of 10 30 120]
  by simp

subsection \<open>The set-point\<close>

text \<open>
  Claim C9. For every input \<open>t\<close>, \<^verbatim>\<open>pump_set_ph_target\<close> stores the clamped value
  \<open>constrain t 5 8\<close>, which is \<open>max 5 (min 8 t)\<close>, as the target of all four controllers
  and sets the integral and the last error of each to 0; \<^verbatim>\<open>pump_get_ph_target\<close> then
  returns the clamped value.
\<close>

theorem set_ph_target_stores_clamped:
  "(\<forall>i<4. target_value (controller (pumps (pump_set_ph_target t w) i)) = constrain t 5 8
          \<and> integral (controller (pumps (pump_set_ph_target t w) i)) = 0
          \<and> last_error (controller (pumps (pump_set_ph_target t w) i)) = 0)
   \<and> pump_get_ph_target (pump_set_ph_target t w) = constrain t 5 8
   \<and> constrain t 5 8 = max 5 (min 8 t)"
  by (auto simp: pump_set_ph_target_def pump_get_ph_target_def set_ph_target_one_def
        map_controller_def map_pump_def upt_4 Let_def constrain_def dest!: less_4_cases)

theorem set_ph_target_stores_clamped_witness:
  "(2::nat) < 4
   \<and> target_value (controller (pumps (pump_set_ph_target 9.5 ready_world) 2)) = 8
   \<and> integral (controller (pumps (pump_set_ph_target 9.5 ready_world) 2)) = 0
   \<and> last_error (controller (pumps (pump_set_ph_target 9.5 ready_world) 2)) = 0
   \<and> pump_get_ph_target (pump_set_ph_target 9.5 ready_world) = 8"
  using set_ph_target_stores_clamped [of "9.5" ready_world]
  by (simp add: constrain_def)

subsection \<open>The automatic dose\<close>

lemma ready_world_fields:
  "pump_states (state_manager ready_world) i = PUMP_IDLE"
  "system_state (state_manager ready_world) = SYS_MONITORING"
  "initialized (pump_system ready_world)"
  "auto_ph_control (pump_system ready_world)"
  by (simp_all add: config_defs)

lemma gate_true_idle:
  "fst (can_dose_safely now p w) \<Longrightarrow> pump_states (state_manager w) (pump_index p) = PUMP_IDLE"
  by (simp add: can_dose_safely_def Let_def split: if_splits)

lemma gate_state_cases:
  "snd (can_dose_safely now p w) = w
   \<or> snd (can_dose_safely now p w)
       = map_controller (pump_index p) (\<lambda>c. c\<lparr> doses_this_hour := 0, hour_start := now \<rparr>) w"
  by (simp add: can_dose_safely_def Let_def)

text \<open>
  Claim C6. With the device in Monitoring, automatic control enabled, every gate passing
  for the pH-down pump, set-point 6.0, a fresh controller (integral 0, last error 0) with
  the default gains 8, 0.5 and 2, a reading of pH 7.0 and 20 litres, \<^verbatim>\<open>pump_ph_dose\<close>
  returns true, selects the pH-down pump (it goes to Priming, the pH-up pump keeps its
  state), computes a dose of exactly 21.0 ml, adds it to the lifetime total by a float
  addition, and stores the run duration 21.0 / 30 * 60000 = 42000 ms and the duty 92 of
  the default rate 30 ml/min. Each value is the result of the binary32 operations of the
  source: the quotient 21.0 / 30 is rounded to 0.699999988 and its product with 60000 is
  rounded to 42000.
\<close>

theorem ph_dose_scenario:
  assumes init: "initialized (pump_system w)" "auto_ph_control (pump_system w)"
    and sys: "system_state (state_manager w) = SYS_MONITORING"
    and gates: "fst (can_dose_safely now PH_DOWN w)"
    and sel: "target_value (controller (pumps w (pump_index PH_UP))) = 6"
    and pid: "target_value (controller (pumps w (pump_index PH_DOWN))) = 6"
      "integral (controller (pumps w (pump_index PH_DOWN))) = 0"
      "last_error (controller (pumps w (pump_index PH_DOWN))) = 0"
      "kp (controller (pumps w (pump_index PH_DOWN))) = 8"
      "ki (controller (pumps w (pump_index PH_DOWN))) = 0.5"
      "kd (controller (pumps w (pump_index PH_DOWN))) = 2"
  shows "fst (pump_ph_dose now 7 20 w)
    \<and> fst (calculate_pid_dose
            (controller (pumps (snd (can_dose_safely now PH_DOWN w)) (pump_index PH_DOWN))) 7 20) = 21
    \<and> pump_states (state_manager (snd (pump_ph_dose now 7 20 w))) (pump_index PH_DOWN) = PUMP_PRIMING
    \<and> pump_states (state_manager (snd (pump_ph_dose now 7 20 w))) (pump_index PH_UP)
        = pump_states (state_manager w) (pump_index PH_UP)
    \<and> total_ml_dosed (controller (pumps (snd (pump_ph_dose now 7 20 w)) (pump_index PH_DOWN)))
        = fadd (total_ml_dosed (controller (pumps w (pump_index PH_DOWN)))) 21
    \<and> last_dose_time (controller (pumps (snd (pump_ph_dose now 7 20 w)) (pump_index PH_DOWN))) = now
    \<and> run_duration_ms (pumps (snd (pump_ph_dose now 7 20 w)) (pump_index PH_DOWN)) = 42000
    \<and> target_pwm_duty (pumps (snd (pump_ph_dose now 7 20 w)) (pump_index PH_DOWN)) = 92"
proof -
  have idle: "pump_states (state_manager w) (pump_index PH_DOWN) = PUMP_IDLE"
    using gates by (rule gate_true_idle)
  from gate_state_cases [of now PH_DOWN w] show ?thesis
  proof
    assume g: "snd (can_dose_safely now PH_DOWN w) = w"
    show ?thesis
      using init sys gates sel pid idle
      by (simp add: pump_ph_dose_def g calculate_pid_dose_scenario start_pump_dose_def
            pump_transition_to_def calculate_pwm_duty_30 run_duration_at map_controller_def
            map_pump_def Let_def)
  next
    assume g: "snd (can_dose_safely now PH_DOWN w)
       = map_controller (pump_index PH_DOWN) (\<lambda>c. c\<lparr> doses_this_hour := 0, hour_start := now \<rparr>) w"
    show ?thesis
      using init sys gates sel pid idle
      by (simp add: pump_ph_dose_def g calculate_pid_dose_scenario start_pump_dose_def
            pump_transition_to_def calculate_pwm_duty_30 run_duration_at map_controller_def
            map_pump_def Let_def)
  qed
qed

theorem ph_dose_scenario_witness:
  "initialized (pump_system ready_world) \<and> auto_ph_control (pump_system ready_world)
   \<and> system_state (state_manager ready_world) = SYS_MONITORING
   \<and> fst (can_dose_safely 400000 PH_DOWN ready_world)
   \<and> controller (pumps ready_world (pump_index PH_UP)) = pid_controller_init 0
   \<and> controller (pumps ready_world (pump_index PH_DOWN)) = pid_controller_init 0
   \<and> fst (pump_ph_dose 400000 7 20 ready_world)
   \<and> pump_states (state_manager (snd (pump_ph_dose 400000 7 20 ready_world))) (pump_index PH_DOWN)
       = PUMP_PRIMING
   \<and> total_ml_dosed (controller (pumps (snd (pump_ph_dose 400000 7 20 ready_world))
         (pump_index PH_DOWN))) = 21
   \<and> run_duration_ms (pumps (snd (pump_ph_dose 400000 7 20 ready_world)) (pump_index PH_DOWN))
       = 42000"
  using ph_dose_scenario [of ready_world 400000]
  by (simp add: config_defs can_dose_safely_def fadd_at)

lemma calculate_pid_dose_at_least_minimum:
  "PUMP_MIN_DOSE_VOLUME \<le> fst (calculate_pid_dose pid current_value volume_liters)"
  by (simp add: calculate_pid_dose_def constrain_def Let_def)

lemma ph_dose_accepts_every_gated_call:
  assumes "initialized (pump_system w)" and "auto_ph_control (pump_system w)"
    and "5 \<le> volume_liters" and "volume_liters \<le> 200"
    and "4 \<le> current_ph" and "current_ph \<le> 9"
    and "fst (can_dose_safely now
                (if current_ph > target_value (controller (pumps w (pump_index PH_UP)))
                 then PH_DOWN else PH_UP) w)"
  shows "fst (pump_ph_dose now current_ph volume_liters w)"
proof -
  define p where
    "p = (if current_ph > target_value (controller (pumps w (pump_index PH_UP)))
          then PH_DOWN else PH_UP)"
  have g: "fst (can_dose_safely now p w)" using assms(7) by (simp only: p_def)
  have idx: "pump_index p < 4" by (simp add: p_def)
  have idle: "pump_states (state_manager w) (pump_index p) = PUMP_IDLE"
    using g by (rule gate_true_idle)
  have sm: "state_manager (snd (can_dose_safely now p w)) = state_manager w"
    using gate_state_cases [of now p w] by (auto simp: map_controller_def map_pump_def)
  have dose: "\<not> fst (calculate_pid_dose c current_ph volume_liters) < 5" for c
    using calculate_pid_dose_at_least_minimum [of c current_ph volume_liters] by simp
  have "fst (pump_ph_dose now current_ph volume_liters w)
        = fst (start_pump_dose now p
                 (fst (calculate_pid_dose
                        (controller (pumps (snd (can_dose_safely now p w)) (pump_index p)))
                        current_ph volume_liters)) 30
                 (map_pump (pump_index p)
                    (\<lambda>q. q\<lparr> controller :=
                              snd (calculate_pid_dose
                                    (controller (pumps (snd (can_dose_safely now p w))
                                       (pump_index p)))
                                    current_ph volume_liters) \<rparr>)
                    (snd (can_dose_safely now p w))))"
    unfolding pump_ph_dose_def Let_def p_def [symmetric]
    using assms(1-6) g by (simp add: dose not_less)
  also have "\<dots> = True"
    using idx idle sm
    by (simp add: start_pump_dose_def pump_transition_to_def map_pump_def Let_def not_le)
  finally show ?thesis by simp
qed

text \<open>
  Claim C1 says that a call of \<^verbatim>\<open>pump_ph_dose\<close> with a valid measurement that passes the
  gates and whose computed dose magnitude is below 5.0 ml returns false and starts no
  dose. The code does otherwise: \<^verbatim>\<open>calculate_pid_dose\<close> clamps the magnitude up to 5.0 ml
  (lemma \<open>calculate_pid_dose_at_least_minimum\<close>), so the test \<^verbatim>\<open>dose_ml < 5.0\<close> that
  follows it never holds and every valid call that passes the gates starts a dose
  (lemma \<open>ph_dose_accepts_every_gated_call\<close>). Evaluated at the reference configuration with the reading equal
  to the set-point (pH 6.0, 20 litres): the magnitude is 0, the call returns true, the
  pH-up pump goes to Priming, and a dose of 5 ml with a run of 10000 ms is booked.
\<close>

theorem ph_dose_below_minimum_is_started:
  "\<bar>kp (controller (pumps ready_world 0)) * (target_value (controller (pumps ready_world 0)) - 6)
     + ki (controller (pumps ready_world 0))
        * constrain (integral (controller (pumps ready_world 0))
                      + (target_value (controller (pumps ready_world 0)) - 6)) (- 50) 50
     + kd (controller (pumps ready_world 0))
        * ((target_value (controller (pumps ready_world 0)) - 6)
            - last_error (controller (pumps ready_world 0)))\<bar> * (20 / 10) = 0
   \<and> fst (can_dose_safely 400000 PH_UP ready_world)
   \<and> fst (pump_ph_dose 400000 6 20 ready_world)
   \<and> pump_states (state_manager (snd (pump_ph_dose 400000 6 20 ready_world))) 0 = PUMP_PRIMING
   \<and> total_ml_dosed (controller (pumps (snd (pump_ph_dose 400000 6 20 ready_world)) 0)) = 5
   \<and> doses_this_hour (controller (pumps (snd (pump_ph_dose 400000 6 20 ready_world)) 0)) = 1
   \<and> run_duration_ms (pumps (snd (pump_ph_dose 400000 6 20 ready_world)) 0) = 10000"
  by (simp add: config_defs engine_defs)

theorem ph_dose_below_minimum_is_started_witness:
  "initialized (pump_system ready_world) \<and> auto_ph_control (pump_system ready_world)
   \<and> fst (can_dose_safely 400000 PH_UP ready_world)
   \<and> fst (pump_ph_dose 400000 6 20 ready_world)
   \<and> total_ml_dosed (controller (pumps (snd (pump_ph_dose 400000 6 20 ready_world)) 0)) = 5"
  using ph_dose_below_minimum_is_started
  by (simp add: ready_world_fields)

subsection \<open>The sequencer\<close>

lemmas sequencer_defs = pump_update_def pump_update_one_def pump_get_state_duration_ms_def
  PumpId_of_def pump_transition_to_def map_pump_def ledcWrite_def priming_pwm upt_4 Let_def

lemma trace_accepted_fields:
  "initialized (pump_system trace_accepted)"
  "pump_states (state_manager trace_accepted) 0 = PUMP_IDLE"
  "pump_states (state_manager trace_accepted) (Suc 0) = PUMP_PRIMING"
  "pump_states (state_manager trace_accepted) 2 = PUMP_IDLE"
  "pump_states (state_manager trace_accepted) 3 = PUMP_IDLE"
  "pump_state_entry_times (state_manager trace_accepted) (Suc 0) = 400000"
  "gpio_pin (pumps trace_accepted 0) = 11"
  "gpio_pin (pumps trace_accepted (Suc 0)) = 12"
  "gpio_pin (pumps trace_accepted 2) = 13"
  "gpio_pin (pumps trace_accepted 3) = 14"
  "run_duration_ms (pumps trace_accepted (Suc 0)) = 42000"
  "target_pwm_duty (pumps trace_accepted (Suc 0)) = 92"
  "ledc trace_accepted 12 = 0"
  by (simp_all add: trace_accepted_def config_defs engine_defs)

lemma trace_priming_fields:
  "initialized (pump_system trace_priming)"
  "pump_states (state_manager trace_priming) 0 = PUMP_IDLE"
  "pump_states (state_manager trace_priming) (Suc 0) = PUMP_PRIMING"
  "pump_states (state_manager trace_priming) 2 = PUMP_IDLE"
  "pump_states (state_manager trace_priming) 3 = PUMP_IDLE"
  "pump_state_entry_times (state_manager trace_priming) (Suc 0) = 400000"
  "gpio_pin (pumps trace_priming 0) = 11"
  "gpio_pin (pumps trace_priming (Suc 0)) = 12"
  "gpio_pin (pumps trace_priming 2) = 13"
  "gpio_pin (pumps trace_priming 3) = 14"
  "run_duration_ms (pumps trace_priming (Suc 0)) = 42000"
  "target_pwm_duty (pumps trace_priming (Suc 0)) = 92"
  "ledc trace_priming 12 = 63"
  by (simp_all add: trace_priming_def sequencer_defs trace_accepted_fields)

lemma trace_dosing_entered_fields:
  "initialized (pump_system trace_dosing_entered)"
  "pump_states (state_manager trace_dosing_entered) 0 = PUMP_IDLE"
  "pump_states (state_manager trace_dosing_entered) (Suc 0) = PUMP_DOSING"
  "pump_states (state_manager trace_dosing_entered) 2 = PUMP_IDLE"
  "pump_states (state_manager trace_dosing_entered) 3 = PUMP_IDLE"
  "pump_state_entry_times (state_manager trace_dosing_entered) (Suc 0) = 402500"
  "gpio_pin (pumps trace_dosing_entered 0) = 11"
  "gpio_pin (pumps trace_dosing_entered (Suc 0)) = 12"
  "gpio_pin (pumps trace_dosing_entered 2) = 13"
  "gpio_pin (pumps trace_dosing_entered 3) = 14"
  "run_duration_ms (pumps trace_dosing_entered (Suc 0)) = 42000"
  "target_pwm_duty (pumps trace_dosing_entered (Suc 0)) = 92"
  "ledc trace_dosing_entered 12 = 63"
  by (simp_all add: trace_dosing_entered_def sequencer_defs trace_priming_fields)

lemma trace_dosing_next_tick_fields:
  "initialized (pump_system trace_dosing_next_tick)"
  "pump_states (state_manager trace_dosing_next_tick) 0 = PUMP_IDLE"
  "pump_states (state_manager trace_dosing_next_tick) (Suc 0) = PUMP_DOSING"
  "pump_states (state_manager trace_dosing_next_tick) 2 = PUMP_IDLE"
  "pump_states (state_manager trace_dosing_next_tick) 3 = PUMP_IDLE"
  "pump_state_entry_times (state_manager trace_dosing_next_tick) (Suc 0) = 402500"
  "gpio_pin (pumps trace_dosing_next_tick 0) = 11"
  "gpio_pin (pumps trace_dosing_next_tick (Suc 0)) = 12"
  "gpio_pin (pumps trace_dosing_next_tick 2) = 13"
  "gpio_pin (pumps trace_dosing_next_tick 3) = 14"
  "run_duration_ms (pumps trace_dosing_next_tick (Suc 0)) = 42000"
  "target_pwm_duty (pumps trace_dosing_next_tick (Suc 0)) = 92"
  "running (pumps trace_dosing_next_tick (Suc 0))"
  "ledc trace_dosing_next_tick 12 = 63"
  by (simp_all add: trace_dosing_next_tick_def sequencer_defs trace_dosing_entered_fields)

lemma trace_dose_complete_fields:
  "pump_states (state_manager trace_dose_complete) (Suc 0) = PUMP_COOLING_DOWN"
  "gpio_pin (pumps trace_dose_complete (Suc 0)) = 12"
  "ledc trace_dose_complete 12 = 0"
  by (simp_all add: trace_dose_complete_def sequencer_defs trace_dosing_next_tick_fields)

lemma pump_update_one_dosing_late:
  assumes "i < 4"
    and "pump_states (state_manager w) i = PUMP_DOSING"
    and "now - pump_state_entry_times (state_manager w) i \<noteq> 0"
    and "now - pump_state_entry_times (state_manager w) i < run_duration_ms (pumps w i)"
  shows "ledc (pump_update_one now i w) = ledc w"
proof -
  have idx: "pump_index (PumpId_of i) = i"
    using assms(1) by (auto simp: PumpId_of_def)
  show ?thesis
    using assms
    by (simp add: pump_update_one_def pump_get_state_duration_ms_def idx map_pump_def Let_def)
qed

text \<open>
  Claim C8 says that the sequencer sets the actuator output of a pump in Dosing to the
  stored target duty once, when the state is entered, holds it, and forces it to zero and
  requests CoolingDown when the run duration is reached. The last part holds. The first
  does not: the output is written only by a call of \<^verbatim>\<open>pump_update\<close> that finds the time in
  state equal to 0, and the state is entered inside an earlier call (the Priming branch),
  which writes nothing. Evaluated on the trace of an accepted dose: Dosing is entered at
  tick 402500 with the output at the priming duty 63 and the target duty 92 stored; the
  call one tick later leaves the output at 63 (lemma \<open>pump_update_one_dosing_late\<close>: so
  does every later call before the run duration), and the call at the run duration
  writes 0 and moves the pump to CoolingDown. The target duty is never written.
\<close>

theorem dosing_target_duty_never_written:
  "pump_states (state_manager trace_priming) 1 = PUMP_PRIMING
   \<and> ledc trace_priming (gpio_pin (pumps trace_priming 1)) = 63
   \<and> pump_states (state_manager trace_dosing_entered) 1 = PUMP_DOSING
   \<and> pump_state_entry_times (state_manager trace_dosing_entered) 1 = 402500
   \<and> target_pwm_duty (pumps trace_dosing_entered 1) = 92
   \<and> run_duration_ms (pumps trace_dosing_entered 1) = 42000
   \<and> ledc trace_dosing_entered (gpio_pin (pumps trace_dosing_entered 1)) = 63
   \<and> pump_states (state_manager trace_dosing_next_tick) 1 = PUMP_DOSING
   \<and> running (pumps trace_dosing_next_tick 1)
   \<and> ledc trace_dosing_next_tick (gpio_pin (pumps trace_dosing_next_tick 1)) = 63
   \<and> pump_states (state_manager trace_dose_complete) 1 = PUMP_COOLING_DOWN
   \<and> ledc trace_dose_complete (gpio_pin (pumps trace_dose_complete 1)) = 0"
  by (simp add: trace_priming_fields trace_dosing_entered_fields trace_dosing_next_tick_fields
        trace_dose_complete_fields)

subsection \<open>Manual control\<close>

lemma stop_manual_other_states:
  assumes "p \<noteq> COUNT"
  shows "fst (pump_stop_manual now p w)
    \<and> ledc (snd (pump_stop_manual now p w)) (gpio_pin (pumps w (pump_index p))) = 0
    \<and> \<not> running (pumps (snd (pump_stop_manual now p w)) (pump_index p))
    \<and> pump_states (state_manager (snd (pump_stop_manual now p w))) (pump_index p)
        = (if pump_states (state_manager w) (pump_index p) = PUMP_DOSING then PUMP_COOLING_DOWN
           else if pump_states (state_manager w) (pump_index p) = PUMP_PRIMING then PUMP_PRIMING
           else PUMP_IDLE)"
  using assms
  by (cases p; cases "pump_states (state_manager w) (pump_index p)")
     (simp_all add: pump_stop_manual_def pump_transition_to_def map_pump_def ledcWrite_def Let_def)

text \<open>
  Claim C10 says that \<^verbatim>\<open>pump_stop_manual\<close> returns true for a valid pump, forces its
  output to zero and its running flag to false, and moves it to CoolingDown from Priming
  or Dosing and to Idle from any other state. All of it holds except the move from
  Priming (lemma \<open>stop_manual_other_states\<close>): the legality table has no edge from Priming
  to CoolingDown, \<^verbatim>\<open>pump_transition_to\<close> refuses, and its result is discarded. Evaluated
  on a pump that is priming since tick 400000: the stop at tick 401000 returns true and
  writes 0, the pump stays in Priming with its entry time, and the next sequencer call
  drives it at the priming duty 63 again.
\<close>

theorem stop_manual_priming_stays_priming:
  "pump_states (state_manager trace_accepted) (pump_index PH_DOWN) = PUMP_PRIMING
   \<and> fst (pump_stop_manual 401000 PH_DOWN trace_accepted)
   \<and> pump_states (state_manager (snd (pump_stop_manual 401000 PH_DOWN trace_accepted)))
        (pump_index PH_DOWN) = PUMP_PRIMING
   \<and> pump_state_entry_times (state_manager (snd (pump_stop_manual 401000 PH_DOWN trace_accepted)))
        (pump_index PH_DOWN) = 400000
   \<and> \<not> running (pumps (snd (pump_stop_manual 401000 PH_DOWN trace_accepted)) (pump_index PH_DOWN))
   \<and> ledc (snd (pump_stop_manual 401000 PH_DOWN trace_accepted)) 12 = 0
   \<and> running (pumps (pump_update 401001 (snd (pump_stop_manual 401000 PH_DOWN trace_accepted)))
        (pump_index PH_DOWN))
   \<and> ledc (pump_update 401001 (snd (pump_stop_manual 401000 PH_DOWN trace_accepted))) 12 = 63"
  by (simp add: pump_stop_manual_def sequencer_defs trace_accepted_fields)

lemma pump_start_manual_never_succeeds: "\<not> fst (pump_start_manual now p r w)"
  by (cases p) (simp_all add: pump_start_manual_def pump_transition_to_def map_pump_def Let_def)

text \<open>
  Claim C2 says that from Idle \<^verbatim>\<open>pump_start_manual\<close> returns true exactly when every
  gate of \<^verbatim>\<open>can_dose_safely\<close> passes, and that the pump then leaves Idle. The code does
  otherwise: it requests the transition from Idle to Dosing (its comment: skip Priming and
  go directly to Dosing), and the legality table permits only Priming from Idle, so
  \<^verbatim>\<open>pump_transition_to\<close> refuses and the call returns false, for every pump, rate and
  state (lemma \<open>pump_start_manual_never_succeeds\<close>). Evaluated at the reference
  configuration: the pH-up pump is Idle and every gate passes at tick 400000, yet the call
  returns false and the pump stays Idle.
\<close>

theorem start_manual_refused_with_gates_open:
  "pump_states (state_manager ready_world) (pump_index PH_UP) = PUMP_IDLE
   \<and> fst (can_dose_safely 400000 PH_UP ready_world)
   \<and> \<not> fst (pump_start_manual 400000 PH_UP 30 ready_world)
   \<and> pump_states (state_manager (snd (pump_start_manual 400000 PH_UP 30 ready_world)))
        (pump_index PH_UP) = PUMP_IDLE"
  by (simp add: config_defs engine_defs)

end
